theory Spec2Isabelle
  imports Complex_Main "HOL-Library.Multiset" "HOL-Library.Sublist" "HOL-Library.Monad_Syntax"
begin

section \<open>Python values read from the remote service\<close>

text \<open>
  A decoded JSON document, as \<^verbatim>\<open>response.json()\<close> hands it to the program: Python's
  \<^verbatim>\<open>None\<close> is \<open>JNull\<close>, a dict is the list of its items (a lookup takes the first
  binding of a key), a float is the rational it denotes. Text is modelled over ASCII.
\<close>

datatype json =
    JNull
  | JBool bool
  | JInt int
  | JFloat rat
  | JStr string
  | JArr "json list"
  | JObj "(string \<times> json) list"

text \<open>Python truth value of a decoded document (\<^verbatim>\<open>if x\<close>, \<^verbatim>\<open>not x\<close>).\<close>

fun truthy :: "json \<Rightarrow> bool" where
  "truthy JNull = False"
| "truthy (JBool b) = b"
| "truthy (JInt i) = (i \<noteq> 0)"
| "truthy (JFloat x) = (x \<noteq> 0)"
| "truthy (JStr s) = (s \<noteq> [])"
| "truthy (JArr xs) = (xs \<noteq> [])"
| "truthy (JObj kvs) = (kvs \<noteq> [])"

text \<open>
  The four dynamic operations the extractor applies to a value. Each returns \<open>None\<close>
  where Python raises (TypeError, KeyError or AttributeError).
  \<^item> \<open>py_in k v\<close> is \<^verbatim>\<open>k in v\<close> for a string \<open>k\<close>: a key test on a dict, an element test
    on a list, a substring test on a string, TypeError on anything else;
  \<^item> \<open>py_getitem v k\<close> is \<^verbatim>\<open>v[k]\<close> for a string \<open>k\<close>: defined on a dict holding the key;
  \<^item> \<open>py_get v k d\<close> is \<^verbatim>\<open>v.get(k, d)\<close>: only a dict has the method;
  \<^item> \<open>py_iter v\<close> lists what \<^verbatim>\<open>for x in v\<close> visits: the elements of a list, the keys of a
    dict, the characters of a string.
\<close>

fun py_in :: "string \<Rightarrow> json \<Rightarrow> bool option" where
  "py_in k (JObj kvs) = Some (map_of kvs k \<noteq> None)"
| "py_in k (JArr xs) = Some (JStr k \<in> set xs)"
| "py_in k (JStr s) = Some (sublist k s)"
| "py_in k JNull = None"
| "py_in k (JBool b) = None"
| "py_in k (JInt i) = None"
| "py_in k (JFloat x) = None"

fun py_getitem :: "json \<Rightarrow> string \<Rightarrow> json option" where
  "py_getitem (JObj kvs) k = map_of kvs k"
| "py_getitem JNull k = None"
| "py_getitem (JBool b) k = None"
| "py_getitem (JInt i) k = None"
| "py_getitem (JFloat x) k = None"
| "py_getitem (JStr s) k = None"
| "py_getitem (JArr xs) k = None"

fun py_get :: "json \<Rightarrow> string \<Rightarrow> json \<Rightarrow> json option" where
  "py_get (JObj kvs) k d = Some (case map_of kvs k of None \<Rightarrow> d | Some v \<Rightarrow> v)"
| "py_get JNull k d = None"
| "py_get (JBool b) k d = None"
| "py_get (JInt i) k d = None"
| "py_get (JFloat x) k d = None"
| "py_get (JStr s) k d = None"
| "py_get (JArr xs) k d = None"

fun py_iter :: "json \<Rightarrow> json list option" where
  "py_iter (JArr xs) = Some xs"
| "py_iter (JObj kvs) = Some (map JStr (remdups (map fst kvs)))"
| "py_iter (JStr s) = Some (map (\<lambda>c. JStr [c]) s)"
| "py_iter JNull = None"
| "py_iter (JBool b) = None"
| "py_iter (JInt i) = None"
| "py_iter (JFloat x) = None"

section \<open>The response extractor\<close>

text \<open>
  \<^verbatim>\<open>next((p for p in ps if p['name'] == n), None)\<close>: the first entry whose name is \<open>n\<close>,
  Python's \<^verbatim>\<open>None\<close> when the scan reaches the end, and an exception (\<open>None\<close> of the
  option) as soon as an entry met before that has no \<^verbatim>\<open>'name'\<close> to read.
\<close>

fun find_named :: "string \<Rightarrow> json list \<Rightarrow> json option" where
  "find_named n [] = Some JNull"
| "find_named n (p # ps) =
     (case py_getitem p ''name'' of
        None \<Rightarrow> None
      | Some v \<Rightarrow> if v = JStr n then Some p else find_named n ps)"

definition icd10_system :: string where
  "icd10_system = ''http://hl7.org/fhir/sid/icd-10-am''"

text \<open>
  The loop over \<^verbatim>\<open>match_param['part']\<close> (lines 310 to 316): the three tests are joined by
  \<^verbatim>\<open>and\<close>, so a later one is evaluated only when the earlier ones hold.
\<close>

fun scan_parts :: "json list \<Rightarrow> json option" where
  "scan_parts [] = Some (JStr [])"
| "scan_parts (part # rest) =
     (case py_get part ''name'' JNull of
        None \<Rightarrow> None
      | Some nm \<Rightarrow>
          if nm \<noteq> JStr ''concept'' then scan_parts rest
          else (case py_in ''valueCoding'' part of
                  None \<Rightarrow> None
                | Some has \<Rightarrow>
                    if \<not> has then scan_parts rest
                    else (case py_getitem part ''valueCoding'' of
                            None \<Rightarrow> None
                          | Some vc \<Rightarrow>
                              (case py_get vc ''system'' JNull of
                                 None \<Rightarrow> None
                               | Some sys \<Rightarrow>
                                   if sys = JStr icd10_system
                                   then py_get vc ''code'' (JStr [])
                                   else scan_parts rest))))"

text \<open>The body of the \<^verbatim>\<open>try\<close> block of \<^verbatim>\<open>extract_icd10_from_response\<close>; \<open>None\<close> is a raised exception.\<close>

definition extract_body :: "json \<Rightarrow> json option" where
  "extract_body response =
     (if \<not> truthy response then Some (JStr [])
      else do {
        has_parameter \<leftarrow> py_in ''parameter'' response;
        if \<not> has_parameter then Some (JStr [])
        else do {
          params \<leftarrow> py_getitem response ''parameter'';
          ps \<leftarrow> py_iter params;
          result_param \<leftarrow> find_named ''result'' ps;
          if \<not> truthy result_param then Some (JStr [])
          else do {
            value_boolean \<leftarrow> py_get result_param ''valueBoolean'' (JBool False);
            if \<not> truthy value_boolean then Some (JStr [])
            else do {
              match_param \<leftarrow> find_named ''match'' ps;
              if \<not> truthy match_param then Some (JStr [])
              else do {
                has_part \<leftarrow> py_in ''part'' match_param;
                if \<not> has_part then Some (JStr [])
                else do {
                  parts \<leftarrow> py_getitem match_param ''part'';
                  xs \<leftarrow> py_iter parts;
                  scan_parts xs
                }
              }
            }
          }
        }
      })"

text \<open>The handler \<^verbatim>\<open>except Exception\<close> turns every exception of the body into the empty string.\<close>

definition extract_icd10_from_response :: "json \<Rightarrow> json" where
  "extract_icd10_from_response response =
     (case extract_body response of None \<Rightarrow> JStr [] | Some v \<Rightarrow> v)"

section \<open>Text and CSV cells\<close>

text \<open>
  \<^verbatim>\<open>str.strip()\<close>, \<^verbatim>\<open>str.isdigit()\<close> and \<^verbatim>\<open>int()\<close> on ASCII text, and \<^verbatim>\<open>str()\<close> of a
  non-negative integer, which is how \<^verbatim>\<open>csv.writer\<close> writes an identifier.
\<close>

definition py_isspace :: "char \<Rightarrow> bool" where
  "py_isspace c = ((of_char c :: nat) \<in> {9, 10, 11, 12, 13, 28, 29, 30, 31, 32})"

definition strip :: "string \<Rightarrow> string" where
  "strip s = rev (dropWhile py_isspace (rev (dropWhile py_isspace s)))"

definition is_digit_char :: "char \<Rightarrow> bool" where
  "is_digit_char c = (48 \<le> (of_char c :: nat) \<and> (of_char c :: nat) \<le> 57)"

definition py_isdigit :: "string \<Rightarrow> bool" where
  "py_isdigit s = (s \<noteq> [] \<and> list_all is_digit_char s)"

definition py_int :: "string \<Rightarrow> nat" where
  "py_int s = foldl (\<lambda>n c. 10 * n + (of_char c - 48)) 0 s"

fun str_nat :: "nat \<Rightarrow> string" where
  "str_nat n =
     (if n < 10 then [char_of (48 + n)]
      else str_nat (n div 10) @ [char_of (48 + n mod 10)])"

declare str_nat.simps [simp del]

text \<open>
  A CSV file is the list of rows \<^verbatim>\<open>csv.reader\<close> yields for it, each a list of cells;
  \<^verbatim>\<open>csv.writer.writerow\<close> appends one row. A file that does not exist is \<open>None\<close>.
  Writing a row and reading it back is taken to give the same cells.
\<close>

type_synonym csv = "string list list"

definition append_row :: "string list \<Rightarrow> csv option \<Rightarrow> csv option" where
  "append_row row file = Some ((case file of None \<Rightarrow> [] | Some rows \<Rightarrow> rows) @ [row])"

section \<open>The ledger readers\<close>

text \<open>
  \<^verbatim>\<open>get_last_id\<close>: the first row is skipped as the header (\<^verbatim>\<open>next(reader)\<close> raises
  StopIteration on a file with no row, which the handler turns into 0); then the
  identifier of every later row whose first cell is a number overwrites \<^verbatim>\<open>last_id\<close>.
\<close>

definition get_last_id :: "csv option \<Rightarrow> nat" where
  "get_last_id file =
     (case file of
        None \<Rightarrow> 0
      | Some [] \<Rightarrow> 0
      | Some (header # rows) \<Rightarrow>
          foldl (\<lambda>last_id row.
                   case row of
                     [] \<Rightarrow> last_id
                   | c # cs \<Rightarrow> if py_isdigit c then py_int c else last_id)
                0 rows)"

text \<open>
  \<^verbatim>\<open>csv.DictReader\<close>: the first row gives the field names; every later row that is not
  blank becomes a dict from field name to cell, a later column winning over an earlier
  one of the same name, and a column the row is too short for reading \<^verbatim>\<open>None\<close>.
  So a value of such a dict is a string or \<^verbatim>\<open>None\<close>.
\<close>

type_synonym cell = "string option"

definition dict_row :: "string list \<Rightarrow> string list \<Rightarrow> string \<Rightarrow> cell option" where
  "dict_row fieldnames row =
     map_of (rev (zip fieldnames
       (map Some row @ replicate (length fieldnames - length row) None)))"

text \<open>
  The loop of \<^verbatim>\<open>load_existing_mappings\<close>. A field name that is missing raises KeyError,
  and the handler returns what the loop had stored until then.
\<close>

fun replay_rows :: "string list \<Rightarrow> csv \<Rightarrow> (cell \<rightharpoonup> cell) \<Rightarrow> (cell \<rightharpoonup> cell)" where
  "replay_rows fieldnames [] existing_mappings = existing_mappings"
| "replay_rows fieldnames (row # rows) existing_mappings =
     (if row = [] then replay_rows fieldnames rows existing_mappings
      else case dict_row fieldnames row ''ICD10'' of
             None \<Rightarrow> existing_mappings
           | Some icd10 \<Rightarrow>
               (case dict_row fieldnames row ''SNOMED'' of
                  None \<Rightarrow> existing_mappings
                | Some snomed \<Rightarrow>
                    replay_rows fieldnames rows (existing_mappings(snomed \<mapsto> icd10))))"

definition load_existing_mappings :: "csv option \<Rightarrow> (cell \<rightharpoonup> cell)" where
  "load_existing_mappings file =
     (case file of
        None \<Rightarrow> Map.empty
      | Some [] \<Rightarrow> Map.empty
      | Some (fieldnames # rows) \<Rightarrow> replay_rows fieldnames rows Map.empty)"

section \<open>The outside world\<close>

text \<open>
  An exception value. \<open>RequestException m r\<close> is any exception of the class
  \<^verbatim>\<open>requests.exceptions.RequestException\<close> with message \<open>m\<close>; \<open>r\<close> says whether its attribute
  \<^verbatim>\<open>response\<close> holds a response (as for the HTTPError of \<^verbatim>\<open>raise_for_status\<close>) or is
  \<^verbatim>\<open>None\<close> (as for a connection that failed before any response). Every other exception
  is \<open>OtherException m\<close>.
\<close>

datatype exn = RequestException string bool | OtherException string

fun exn_str :: "exn \<Rightarrow> string" where
  "exn_str (RequestException m r) = m"
| "exn_str (OtherException m) = m"

text \<open>
  What one HTTP exchange does: \<^verbatim>\<open>requests.post\<close> raises, or it returns a response with a
  status code whose \<^verbatim>\<open>.json()\<close> either raises or gives the decoded body.
\<close>

datatype http_outcome = Raises exn | Responds nat "exn + json"

datatype request = Token_request | Translate_request json string

text \<open>
  The environment of a run. Every interaction with it is numbered by the \<open>tick\<close> of the
  world at which it happens, so the same request may be answered differently at different
  times. \<open>py_str\<close> is Python's \<^verbatim>\<open>str()\<close> on a value that is neither a string nor \<^verbatim>\<open>None\<close>.
\<close>

record env =
  load_credentials :: "exn option"
  token_endpoint :: "nat \<Rightarrow> http_outcome"
  translate :: "nat \<Rightarrow> json \<Rightarrow> string \<Rightarrow> http_outcome"
  open_artifact :: "nat \<Rightarrow> string \<Rightarrow> exn option"
  now :: "nat \<Rightarrow> string"
  py_str :: "json \<Rightarrow> string"

text \<open>
  The world a run changes: the two ledgers, the JSON artifacts written (latest last), the
  requests sent to the remote service (latest last) and the number of interactions so far.
\<close>

record world =
  output_file :: "csv option"
  failed_file :: "csv option"
  artifacts :: "(string \<times> json) list"
  requests :: "request list"
  tick :: nat

text \<open>The local variables of \<^verbatim>\<open>process_batch_codes\<close>, the client's token and the world.\<close>

record state =
  total_codes :: nat
  skipped_codes :: nat
  processed_codes :: nat
  error_codes :: nat
  current_id :: nat
  failed_id :: nat
  access_token :: json
  wld :: world

section \<open>The client\<close>

fun py_type_name :: "json \<Rightarrow> string" where
  "py_type_name JNull = ''NoneType''"
| "py_type_name (JBool b) = ''bool''"
| "py_type_name (JInt i) = ''int''"
| "py_type_name (JFloat x) = ''float''"
| "py_type_name (JStr s) = ''str''"
| "py_type_name (JArr xs) = ''list''"
| "py_type_name (JObj kvs) = ''dict''"

definition attribute_error :: "json \<Rightarrow> string \<Rightarrow> exn" where
  "attribute_error v a =
     OtherException ([CHR 0x27] @ py_type_name v @ [CHR 0x27] @ '' object has no attribute ''
                     @ [CHR 0x27] @ a @ [CHR 0x27])"

definition raise_for_status :: "nat \<Rightarrow> bool" where
  "raise_for_status status_code = (400 \<le> status_code \<and> status_code < 600)"

definition sent :: "request \<Rightarrow> state \<Rightarrow> state" where
  "sent r st =
     st\<lparr>wld := (wld st)\<lparr>requests := requests (wld st) @ [r], tick := Suc (tick (wld st))\<rparr>\<rparr>"

text \<open>
  \<^verbatim>\<open>get_access_token\<close>: its handler catches a RequestException only, and returns \<^verbatim>\<open>None\<close>
  leaving the token as it was; any other exception leaves the method.
\<close>

definition token_failed :: "exn \<Rightarrow> state \<Rightarrow> (exn + json) \<times> state" where
  "token_failed e st =
     (case e of
        RequestException m r \<Rightarrow> (Inr JNull, st)
      | OtherException m \<Rightarrow> (Inl e, st))"

definition get_access_token :: "env \<Rightarrow> state \<Rightarrow> (exn + json) \<times> state" where
  "get_access_token env st =
     (let st1 = sent Token_request st in
      case token_endpoint env (tick (wld st)) of
        Raises e \<Rightarrow> token_failed e st1
      | Responds status_code decoded \<Rightarrow>
          if raise_for_status status_code
          then token_failed (RequestException ''HTTPError'' True) st1
          else (case decoded of
                  Inl e \<Rightarrow> token_failed e st1
                | Inr token_data \<Rightarrow>
                    (case py_get token_data ''access_token'' JNull of
                       None \<Rightarrow> (Inl (attribute_error token_data ''get''), st1)
                     | Some tok \<Rightarrow> (Inr tok, st1\<lparr>access_token := tok\<rparr>))))"

text \<open>
  The handler of \<^verbatim>\<open>make_fhir_request\<close> (lines 112 to 117). A RequestException always has
  the attribute \<^verbatim>\<open>response\<close>, so the handler reads \<^verbatim>\<open>e.response.text\<close>: with a response
  it logs and returns \<^verbatim>\<open>None\<close>; with \<^verbatim>\<open>None\<close> there, reading \<^verbatim>\<open>.text\<close> raises
  AttributeError, which leaves the method.
\<close>

definition request_failed :: "exn \<Rightarrow> state \<Rightarrow> (exn + json) \<times> state" where
  "request_failed e st =
     (case e of
        RequestException m r \<Rightarrow>
          if r then (Inr JNull, st) else (Inl (attribute_error JNull ''text''), st)
      | OtherException m \<Rightarrow> (Inl e, st))"

text \<open>
  \<^verbatim>\<open>make_fhir_request\<close> as \<^verbatim>\<open>map_snomed_to_icd10\<close> calls it: a POST of one coding to
  \<^verbatim>\<open>ConceptMap/$translate\<close>. Without a token it asks for one first, and returns \<^verbatim>\<open>None\<close>
  when it still has none.
\<close>

definition make_fhir_request :: "env \<Rightarrow> string \<Rightarrow> state \<Rightarrow> (exn + json) \<times> state" where
  "make_fhir_request env code st =
     (case (if \<not> truthy (access_token st) then get_access_token env st
            else (Inr (access_token st), st)) of
        (Inl e, st1) \<Rightarrow> (Inl e, st1)
      | (Inr tok, st1) \<Rightarrow>
          if \<not> truthy (access_token st1) then (Inr JNull, st1)
          else
            (let st2 = sent (Translate_request (access_token st1) code) st1 in
             case translate env (tick (wld st1)) (access_token st1) code of
               Raises e \<Rightarrow> request_failed e st2
             | Responds status_code decoded \<Rightarrow>
                 if raise_for_status status_code
                 then request_failed (RequestException ''HTTPError'' True) st2
                 else (case decoded of
                         Inl e \<Rightarrow> request_failed e st2
                       | Inr body \<Rightarrow> (Inr body, st2))))"

definition map_snomed_to_icd10 :: "env \<Rightarrow> string \<Rightarrow> state \<Rightarrow> (exn + json) \<times> state" where
  "map_snomed_to_icd10 env snomed_code st = make_fhir_request env snomed_code st"

section \<open>The batch engine\<close>

text \<open>How \<^verbatim>\<open>csv.writer\<close> writes the extracted code: a string as it is, anything else by \<^verbatim>\<open>str()\<close>.\<close>

definition csv_field :: "env \<Rightarrow> json \<Rightarrow> string" where
  "csv_field env v = (case v of JStr s \<Rightarrow> s | JNull \<Rightarrow> [] | _ \<Rightarrow> py_str env v)"

text \<open>Lines 255 to 262: the row of a successful mapping.\<close>

definition write_success :: "env \<Rightarrow> string \<Rightarrow> json \<Rightarrow> state \<Rightarrow> state" where
  "write_success env snomed_code icd10_code st =
     st\<lparr>processed_codes := Suc (processed_codes st),
        current_id := Suc (current_id st),
        wld := (wld st)\<lparr>
          output_file := append_row
            [str_nat (current_id st), snomed_code, csv_field env icd10_code,
             now env (tick (wld st))]
            (output_file (wld st)),
          tick := Suc (tick (wld st))\<rparr>\<rparr>"

text \<open>Lines 265 to 272 and 276 to 284: the row of a failure, with its \<^verbatim>\<open>ERROR\<close> text.\<close>

definition write_failed :: "env \<Rightarrow> string \<Rightarrow> string \<Rightarrow> state \<Rightarrow> state" where
  "write_failed env snomed_code err st =
     st\<lparr>error_codes := Suc (error_codes st),
        failed_id := Suc (failed_id st),
        wld := (wld st)\<lparr>
          failed_file := append_row
            [str_nat (failed_id st), snomed_code, err, now env (tick (wld st))]
            (failed_file (wld st)),
          tick := Suc (tick (wld st))\<rparr>\<rparr>"

text \<open>Lines 247 to 249: the artifact of the code, whose file may fail to open.\<close>

definition save_json :: "env \<Rightarrow> string \<Rightarrow> json \<Rightarrow> state \<Rightarrow> exn option \<times> state" where
  "save_json env snomed_code response st =
     (case open_artifact env (tick (wld st)) snomed_code of
        Some e \<Rightarrow> (Some e, st\<lparr>wld := (wld st)\<lparr>tick := Suc (tick (wld st))\<rparr>\<rparr>)
      | None \<Rightarrow>
          (None, st\<lparr>wld := (wld st)\<lparr>
             artifacts := artifacts (wld st) @ [(snomed_code, response)],
             tick := Suc (tick (wld st))\<rparr>\<rparr>))"

text \<open>The body of the loop over the input lines (lines 229 to 284).\<close>

definition process_line ::
  "env \<Rightarrow> bool \<Rightarrow> (cell \<rightharpoonup> cell) \<Rightarrow> string \<Rightarrow> state \<Rightarrow> state" where
  "process_line env full_refresh existing_mappings line st =
     (let snomed_code = strip line in
      if snomed_code = [] then st
      else
        (let st0 = st\<lparr>total_codes := Suc (total_codes st)\<rparr> in
         if \<not> full_refresh \<and> existing_mappings (Some snomed_code) \<noteq> None
         then st0\<lparr>skipped_codes := Suc (skipped_codes st0)\<rparr>
         else
           (case map_snomed_to_icd10 env snomed_code st0 of
              (Inl e, st1) \<Rightarrow> write_failed env snomed_code (''ERROR: '' @ exn_str e) st1
            | (Inr response, st1) \<Rightarrow>
                (case save_json env snomed_code response st1 of
                   (Some e, st2) \<Rightarrow>
                     write_failed env snomed_code (''ERROR: '' @ exn_str e) st2
                 | (None, st2) \<Rightarrow>
                     (let icd10_code = extract_icd10_from_response response in
                      if truthy icd10_code
                      then write_success env snomed_code icd10_code st2
                      else write_failed env snomed_code ''No mapping found'' st2)))))"

text \<open>
  Opening a ledger (lines 213 to 226): mode \<^verbatim>\<open>'w'\<close> empties the file, mode \<^verbatim>\<open>'a'\<close> keeps
  it and creates it when it is absent; the header is written on a full refresh and when
  the file did not exist before.
\<close>

definition open_ledger :: "bool \<Rightarrow> string list \<Rightarrow> csv option \<Rightarrow> csv option" where
  "open_ledger full_refresh header file =
     (let file_exists = (file \<noteq> None);
          opened = (if full_refresh then Some []
                    else Some (case file of None \<Rightarrow> [] | Some rows \<Rightarrow> rows))
      in if full_refresh \<or> \<not> file_exists then append_row header opened else opened)"

definition output_header :: "string list" where
  "output_header = [''ID'', ''SNOMED'', ''ICD10'', ''TIMESTAMP'']"

definition failed_header :: "string list" where
  "failed_header = [''ID'', ''SNOMED'', ''ERROR'', ''TIMESTAMP'']"

datatype run_result = Completed | Aborted exn

text \<open>
  \<^verbatim>\<open>process_batch_codes\<close>. The input file is \<open>Inl e\<close> when opening it raises \<open>e\<close>, and the
  list of its lines otherwise. The result is how the run ended, with the final counters
  and world. Creating the directory of the artifacts and opening the two ledgers are
  taken to succeed.
\<close>

definition process_batch_codes ::
  "env \<Rightarrow> exn + string list \<Rightarrow> bool \<Rightarrow> world \<Rightarrow> run_result \<times> state" where
  "process_batch_codes env input_file full_refresh w =
     (let existing_mappings =
            (if full_refresh then Map.empty else load_existing_mappings (output_file w));
          st = \<lparr>total_codes = 0, skipped_codes = 0, processed_codes = 0, error_codes = 0,
                current_id = (if full_refresh then 1 else get_last_id (output_file w) + 1),
                failed_id = (if full_refresh then 1 else get_last_id (failed_file w) + 1),
                access_token = JNull,
                wld = w\<rparr>
      in case load_credentials env of
           Some e \<Rightarrow> (Aborted e, st)
         | None \<Rightarrow>
             (let st1 = st\<lparr>wld := w\<lparr>
                    output_file := open_ledger full_refresh output_header (output_file w),
                    failed_file := open_ledger full_refresh failed_header (failed_file w)\<rparr>\<rparr>
              in case input_file of
                   Inl e \<Rightarrow> (Aborted e, st1)
                 | Inr lines \<Rightarrow>
                     (Completed,
                      fold (process_line env full_refresh existing_mappings) lines st1)))"

text \<open>The world a run leaves behind.\<close>

definition run :: "env \<Rightarrow> exn + string list \<Rightarrow> bool \<Rightarrow> world \<Rightarrow> world" where
  "run env input_file full_refresh w = wld (snd (process_batch_codes env input_file full_refresh w))"

section \<open>Vocabulary of the properties\<close>

text \<open>
  What the client and the artifact writer may change: neither ledger, neither identifier
  counter and none of the three outcome counters.
\<close>

definition remote_only :: "state \<Rightarrow> state \<Rightarrow> bool" where
  "remote_only st st' =
     (output_file (wld st') = output_file (wld st)
      \<and> failed_file (wld st') = failed_file (wld st)
      \<and> current_id st' = current_id st
      \<and> failed_id st' = failed_id st
      \<and> processed_codes st' = processed_codes st
      \<and> error_codes st' = error_codes st
      \<and> skipped_codes st' = skipped_codes st)"











text \<open>
  A failed credential exchange: the request to the token endpoint fails in transport
  (a RequestException), or its response has an error status.
\<close>

definition token_refused :: "http_outcome \<Rightarrow> bool" where
  "token_refused outcome =
     (case outcome of
        Raises e \<Rightarrow> (case e of RequestException m r \<Rightarrow> True | OtherException m \<Rightarrow> False)
      | Responds status_code decoded \<Rightarrow> raise_for_status status_code)"

text \<open>
  The invariant of the loop while every credential exchange fails: no token is held,
  no success row is written, every code that is not skipped has a failure row, and the
  only requests sent are token requests, one for each such code.
\<close>

definition refused_so_far :: "csv option \<Rightarrow> csv \<Rightarrow> request list \<Rightarrow> state \<Rightarrow> bool" where
  "refused_so_far out0 fail0 req0 st =
     (\<not> truthy (access_token st)
      \<and> processed_codes st = 0
      \<and> total_codes st = skipped_codes st + error_codes st
      \<and> output_file (wld st) = out0
      \<and> requests (wld st) = req0 @ replicate (error_codes st) Token_request
      \<and> (\<exists>rows. failed_file (wld st) = Some (fail0 @ rows) \<and> length rows = error_codes st))"




text \<open>
  Vocabulary for the order of a response. An entry of the parameter collection is read
  by its \<^verbatim>\<open>'name'\<close>, so it has to be an object that has one.
\<close>

fun is_object :: "json \<Rightarrow> bool" where
  "is_object (JObj kvs) = True"
| "is_object JNull = False"
| "is_object (JBool b) = False"
| "is_object (JInt i) = False"
| "is_object (JFloat x) = False"
| "is_object (JStr s) = False"
| "is_object (JArr xs) = False"

definition has_name :: "json \<Rightarrow> bool" where
  "has_name p = (py_getitem p ''name'' \<noteq> None)"

definition named_as :: "string \<Rightarrow> json \<Rightarrow> bool" where
  "named_as n p = (py_getitem p ''name'' = Some (JStr n))"

text \<open>
  A sub-part the loop over the parts can test without an exception: an object whose
  \<^verbatim>\<open>valueCoding\<close>, when it has one, is an object. And a sub-part the loop returns from:
  a concept whose coding is in the ICD-10-AM system.
\<close>

definition well_formed_part :: "json \<Rightarrow> bool" where
  "well_formed_part part =
     (is_object part
      \<and> (case py_getitem part ''valueCoding'' of None \<Rightarrow> True | Some vc \<Rightarrow> is_object vc))"

definition icd10_concept :: "json \<Rightarrow> bool" where
  "icd10_concept part =
     (py_get part ''name'' JNull = Some (JStr ''concept'')
      \<and> (case py_getitem part ''valueCoding'' of
            None \<Rightarrow> False
          | Some vc \<Rightarrow> py_get vc ''system'' JNull = Some (JStr icd10_system)))"

text \<open>
  A parameter named \<^verbatim>\<open>match\<close> whose list of sub-parts leaves no choice: every sub-part is
  well formed and at most one is an ICD-10-AM concept.
\<close>

definition parts_unambiguous :: "json \<Rightarrow> bool" where
  "parts_unambiguous p =
     (if named_as ''match'' p
      then (case py_getitem p ''part'' of
              Some (JArr parts) \<Rightarrow>
                list_all well_formed_part parts \<and> length (filter icd10_concept parts) \<le> 1
            | _ \<Rightarrow> True)
      else True)"

text \<open>
  \<open>reordered_parts p p'\<close>: the entry \<open>p'\<close> is the entry \<open>p\<close>, or it is \<open>p\<close> with the list under
  \<^verbatim>\<open>'part'\<close> permuted (the items under the other keys are the same).
\<close>

fun items :: "json \<Rightarrow> (string \<times> json) list" where
  "items (JObj kvs) = kvs"
| "items JNull = []"
| "items (JBool b) = []"
| "items (JInt i) = []"
| "items (JFloat x) = []"
| "items (JStr s) = []"
| "items (JArr xs) = []"

fun elements :: "json \<Rightarrow> json list option" where
  "elements (JArr xs) = Some xs"
| "elements JNull = None"
| "elements (JBool b) = None"
| "elements (JInt i) = None"
| "elements (JFloat x) = None"
| "elements (JStr s) = None"
| "elements (JObj kvs) = None"

definition reordered_parts :: "json \<Rightarrow> json \<Rightarrow> bool" where
  "reordered_parts p p' =
     (p' = p
      \<or> (is_object p \<and> is_object p'
         \<and> filter (\<lambda>kv. fst kv \<noteq> ''part'') (items p') = filter (\<lambda>kv. fst kv \<noteq> ''part'') (items p)
         \<and> (case py_getitem p ''part'' \<bind> elements of
               None \<Rightarrow> False
             | Some xs \<Rightarrow>
                 (case py_getitem p' ''part'' \<bind> elements of
                    None \<Rightarrow> False
                  | Some ys \<Rightarrow> mset ys = mset xs))))"

text \<open>
  The body of the extractor from the parameter list on (lines 300 to 316), and from the
  match parameter on (lines 306 to 316).
\<close>

definition match_tail :: "json \<Rightarrow> json option" where
  "match_tail match_param =
     (if \<not> truthy match_param then Some (JStr [])
      else do {
        has_part \<leftarrow> py_in ''part'' match_param;
        if \<not> has_part then Some (JStr [])
        else do {
          parts \<leftarrow> py_getitem match_param ''part'';
          xs \<leftarrow> py_iter parts;
          scan_parts xs
        }
      })"

definition extract_params :: "json list \<Rightarrow> json option" where
  "extract_params ps =
     do {
       result_param \<leftarrow> find_named ''result'' ps;
       if \<not> truthy result_param then Some (JStr [])
       else do {
         value_boolean \<leftarrow> py_get result_param ''valueBoolean'' (JBool False);
         if \<not> truthy value_boolean then Some (JStr [])
         else do {
           match_param \<leftarrow> find_named ''match'' ps;
           match_tail match_param
         }
       }
     }"






text \<open>The token the client holds, if any, is the one the token endpoint issues.\<close>

definition token_known :: "env \<Rightarrow> state \<Rightarrow> bool" where
  "token_known env st =
     (\<not> truthy (access_token st)
      \<or> (\<exists>status_code token_data.
            token_endpoint env 0 = Responds status_code (Inr token_data)
            \<and> \<not> raise_for_status status_code
            \<and> py_get token_data ''access_token'' JNull = Some (access_token st)))"




section \<open>Concrete responses, environments and worlds\<close>

text \<open>The three responses of the extractor's unit cases.\<close>

definition match_response :: json where
  "match_response =
     JObj [(''parameter'', JArr [
       JObj [(''name'', JStr ''result''), (''valueBoolean'', JBool True)],
       JObj [(''name'', JStr ''match''), (''part'', JArr [
         JObj [(''name'', JStr ''concept''),
               (''valueCoding'', JObj [(''system'', JStr ''http://hl7.org/fhir/sid/icd-10-am''),
                                       (''code'', JStr ''J45.9'')])]])]])]"

definition no_match_response :: json where
  "no_match_response =
     JObj [(''parameter'', JArr [
       JObj [(''name'', JStr ''result''), (''valueBoolean'', JBool False)]])]"

definition empty_response :: json where
  "empty_response = JObj []"

text \<open>
  A remote service that issues the token \<^verbatim>\<open>secret\<close>, maps the code 1 to J45.9, answers
  the code 500 with the status 500 and has no match for any other code; artifacts can be
  written and the clock stands still.
\<close>

definition demo_env :: env where
  "demo_env =
     \<lparr>load_credentials = None,
      token_endpoint = (\<lambda>t. Responds 200 (Inr (JObj [(''access_token'', JStr ''secret'')]))),
      translate = (\<lambda>t tok code.
         if code = ''1'' then Responds 200 (Inr match_response)
         else if code = ''500'' then Responds 500 (Inr JNull)
         else Responds 200 (Inr no_match_response)),
      open_artifact = (\<lambda>t code. None),
      now = (\<lambda>t. ''2024-01-01 00:00:00''),
      py_str = (\<lambda>v. ''?'')\<rparr>"

text \<open>A world with no ledger yet, and one whose ledgers hold a row each.\<close>

definition fresh_world :: world where
  "fresh_world =
     \<lparr>output_file = None, failed_file = None, artifacts = [], requests = [], tick = 0\<rparr>"

definition old_world :: world where
  "old_world =
     \<lparr>output_file = Some [output_header, [''1'', ''111'', ''A00'', ''2023-12-31 10:00:00'']],
      failed_file = Some [failed_header,
                          [''1'', ''222'', ''No mapping found'', ''2023-12-31 10:00:01'']],
      artifacts = [], requests = [], tick = 0\<rparr>"



text \<open>The same service when the token endpoint answers every request with the status 401.\<close>

definition no_token_env :: env where
  "no_token_env = demo_env\<lparr>token_endpoint := (\<lambda>t. Responds 401 (Inr JNull))\<rparr>"




definition resumed_state :: state where
  "resumed_state =
     \<lparr>total_codes = 0, skipped_codes = 0, processed_codes = 0, error_codes = 0,
      current_id = 2, failed_id = 2, access_token = JNull, wld = old_world\<rparr>"


definition refused_once_world :: world where
  "refused_once_world =
     \<lparr>output_file = Some [output_header],
      failed_file = Some [failed_header,
                          [''1'', ''1'', ''No mapping found'', ''2024-01-01 00:00:00'']],
      artifacts = [(''1'', JNull)],
      requests = [Token_request],
      tick = 3\<rparr>"



text \<open>Building blocks of responses: a concept sub-part, the two parameters, a response.\<close>

definition concept_part :: "string \<Rightarrow> string \<Rightarrow> json" where
  "concept_part sys code =
     JObj [(''name'', JStr ''concept''),
           (''valueCoding'', JObj [(''system'', JStr sys), (''code'', JStr code)])]"

definition result_true :: json where
  "result_true = JObj [(''name'', JStr ''result''), (''valueBoolean'', JBool True)]"

definition match_of :: "json list \<Rightarrow> json" where
  "match_of parts = JObj [(''name'', JStr ''match''), (''part'', JArr parts)]"

definition response_of :: "json list \<Rightarrow> json" where
  "response_of ps = JObj [(''parameter'', JArr ps)]"

text \<open>Two concepts of the ICD-10-AM system and one of another system.\<close>

definition j459 :: json where
  "j459 = concept_part ''http://hl7.org/fhir/sid/icd-10-am'' ''J45.9''"

definition j450 :: json where
  "j450 = concept_part ''http://hl7.org/fhir/sid/icd-10-am'' ''J45.0''"

definition sct1 :: json where
  "sct1 = concept_part ''http://snomed.info/sct'' ''1''"

section \<open>What the client leaves alone\<close>


lemma remote_only_trans: "remote_only a b \<Longrightarrow> remote_only b c \<Longrightarrow> remote_only a c"
  by (simp add: remote_only_def)







lemma save_json_frame:
  "save_json env code response st = (r, st') \<Longrightarrow> remote_only st st'"
  by (auto simp: save_json_def remote_only_def split: option.splits)

section \<open>The four ways a line is processed\<close>


section \<open>Identifiers written and read back\<close>









section \<open>The numbering of a ledger is kept by every run\<close>



lemma open_ledger_some: "\<exists>rows. open_ledger fr h file = Some rows"
  by (auto simp: open_ledger_def append_row_def Let_def)











section \<open>The client when an exchange fails\<close>

lemma extract_null: "extract_icd10_from_response JNull = JStr []"
  by (simp add: extract_icd10_from_response_def extract_body_def)



lemma refused_token:
  assumes "token_refused (token_endpoint env (tick (wld st)))"
  shows "get_access_token env st = (Inr JNull, sent Token_request st)"
  using assms
  by (auto simp: get_access_token_def token_refused_def token_failed_def Let_def
      split: http_outcome.splits exn.splits)

lemma refused_request:
  assumes "\<not> truthy (access_token st)"
    and "token_refused (token_endpoint env (tick (wld st)))"
  shows "make_fhir_request env c st = (Inr JNull, sent Token_request st)"
  using assms by (simp add: make_fhir_request_def refused_token sent_def)

lemma refused_line:
  assumes "\<not> truthy (access_token st)"
    and "token_refused (token_endpoint env (tick (wld st)))"
    and "strip line \<noteq> []" and "fr \<or> ex (Some (strip line)) = None"
  shows "\<exists>err st'. process_line env fr ex line st = write_failed env (strip line) err st'
           \<and> remote_only st st' \<and> access_token st' = access_token st
           \<and> total_codes st' = Suc (total_codes st)
           \<and> requests (wld st') = requests (wld st) @ [Token_request]"
proof -
  let ?c = "strip line"
  let ?st0 = "st\<lparr>total_codes := Suc (total_codes st)\<rparr>"
  let ?st1 = "sent Token_request ?st0"
  have m: "map_snomed_to_icd10 env ?c ?st0 = (Inr JNull, ?st1)"
    using assms(1,2) refused_request [of ?st0 env ?c]
    by (simp add: map_snomed_to_icd10_def)
  obtain a st2 where s: "save_json env ?c JNull ?st1 = (a, st2)"
    by (cases "save_json env ?c JNull ?st1") auto
  then have f: "remote_only ?st1 st2" by (rule save_json_frame)
  have r1: "remote_only st ?st1" by (simp add: remote_only_def sent_def)
  from s have keep: "access_token st2 = access_token st"
      "total_codes st2 = Suc (total_codes st)"
      "requests (wld st2) = requests (wld st) @ [Token_request]"
    by (auto simp: save_json_def sent_def split: option.splits)
  have "process_line env fr ex line st =
          write_failed env ?c (case a of None \<Rightarrow> ''No mapping found''
                               | Some e \<Rightarrow> ''ERROR: '' @ exn_str e) st2"
    using assms(3,4) m s
    by (cases a) (auto simp: process_line_def Let_def extract_null)
  with keep remote_only_trans [OF r1 f] show ?thesis by blast
qed

lemma refused_step:
  assumes "\<forall>t. token_refused (token_endpoint env t)"
    and "refused_so_far out0 fail0 req0 st"
  shows "refused_so_far out0 fail0 req0 (process_line env fr ex line st)"
proof (cases "strip line = []")
  case True
  with assms(2) show ?thesis by (simp add: process_line_def)
next
  case nonblank: False
  show ?thesis
  proof (cases "\<not> fr \<and> ex (Some (strip line)) \<noteq> None")
    case True
    with nonblank have "process_line env fr ex line st =
        st\<lparr>total_codes := Suc (total_codes st), skipped_codes := Suc (skipped_codes st)\<rparr>"
      by (auto simp: process_line_def Let_def)
    with assms(2) show ?thesis by (simp add: refused_so_far_def)
  next
    case False
    with assms nonblank refused_line [of st env line fr ex]
    obtain err st' where p: "process_line env fr ex line st = write_failed env (strip line) err st'"
      and f: "remote_only st st'" and k: "access_token st' = access_token st"
        "total_codes st' = Suc (total_codes st)"
        "requests (wld st') = requests (wld st) @ [Token_request]"
      by (auto simp: refused_so_far_def)
    from assms(2) obtain rows where rows: "failed_file (wld st) = Some (fail0 @ rows)"
      "length rows = error_codes st"
      by (auto simp: refused_so_far_def)
    from f have g: "output_file (wld st') = output_file (wld st)"
        "failed_file (wld st') = failed_file (wld st)"
        "processed_codes st' = processed_codes st" "error_codes st' = error_codes st"
        "skipped_codes st' = skipped_codes st"
      by (simp_all add: remote_only_def)
    show ?thesis
      unfolding p using assms(2) rows k g
      by (simp add: refused_so_far_def write_failed_def append_row_def replicate_append_same)
  qed
qed

lemma refused_fold:
  assumes "\<forall>t. token_refused (token_endpoint env t)"
  shows "refused_so_far out0 fail0 req0 st \<Longrightarrow>
         refused_so_far out0 fail0 req0 (fold (process_line env fr ex) lines st)"
  by (induction lines arbitrary: st) (simp_all add: refused_step [OF assms])

section \<open>Rows of the success ledger\<close>





section \<open>Concrete runs\<close>

lemma str_nat_small:
  "str_nat (Suc 0) = ''1''" "str_nat (Suc (Suc 0)) = ''2''" "str_nat 2 = ''2''"
  by code_simp+


lemma strip_1: "strip ''1'' = ''1''"
  by (simp add: strip_def py_isspace_def)

lemma strip_111: "strip '' 111 '' = ''111''"
  by (simp add: strip_def py_isspace_def)











lemma existing_old: "load_existing_mappings (output_file old_world) (Some ''111'') = Some (Some ''A00'')"
  by (simp add: load_existing_mappings_def old_world_def output_header_def dict_row_def)




lemma no_token_env_sel:
  "load_credentials no_token_env = None"
  "open_artifact no_token_env t c = None"
  "now no_token_env t = ''2024-01-01 00:00:00''"
  by (simp_all add: no_token_env_def demo_env_def)

lemma no_token_refused: "token_refused (token_endpoint no_token_env t)"
  by (simp add: no_token_env_def token_refused_def raise_for_status_def)

lemma no_token_line_1:
  "\<not> truthy (access_token st) \<Longrightarrow>
   process_line no_token_env fr Map.empty ''1'' st =
     st\<lparr>total_codes := Suc (total_codes st),
        error_codes := Suc (error_codes st),
        failed_id := Suc (failed_id st),
        wld := (wld st)\<lparr>
          failed_file := append_row
            [str_nat (failed_id st), ''1'', ''No mapping found'', ''2024-01-01 00:00:00'']
            (failed_file (wld st)),
          artifacts := artifacts (wld st) @ [(''1'', JNull)],
          requests := requests (wld st) @ [Token_request],
          tick := tick (wld st) + 3\<rparr>\<rparr>"
  by (simp add: process_line_def strip_1 map_snomed_to_icd10_def refused_request no_token_refused
      sent_def save_json_def write_failed_def Let_def extract_null no_token_env_sel)

lemma batch_1_refused:
  "process_batch_codes no_token_env (Inr [''1'']) fr fresh_world =
     (Completed,
      \<lparr>total_codes = 1, skipped_codes = 0, processed_codes = 0, error_codes = 1,
       current_id = 1, failed_id = 2, access_token = JNull,
       wld = refused_once_world\<rparr>)"
  by (simp add: process_batch_codes_def fresh_world_def refused_once_world_def no_token_env_sel
      open_ledger_def append_row_def get_last_id_def load_existing_mappings_def
      no_token_line_1 str_nat_small Let_def)




section \<open>The last identifier of a ledger\<close>





section \<open>The extractor and the order of a response\<close>

lemma is_object_iff: "is_object v \<longleftrightarrow> (\<exists>kvs. v = JObj kvs)"
  by (cases v) simp_all

lemma has_name_object: "has_name p \<Longrightarrow> \<exists>kvs. p = JObj kvs \<and> map_of kvs ''name'' \<noteq> None"
  by (cases p) (simp_all add: has_name_def)

lemma find_named_step:
  "has_name p \<Longrightarrow>
   find_named n (p # ps) = (if named_as n p then Some p else find_named n ps)"
  by (auto simp: has_name_def named_as_def)

lemma find_named_filter:
  "list_all has_name ps \<Longrightarrow> find_named n ps = find_named n (filter (named_as n) ps)"
proof (induction ps)
  case Nil
  then show ?case by simp
next
  case (Cons p ps)
  then have hp: "has_name p" and hps: "list_all has_name ps" by simp_all
  show ?case
  proof (cases "named_as n p")
    case True
    then show ?thesis using hp by (simp add: find_named_step del: find_named.simps)
  next
    case False
    then show ?thesis using hp Cons.IH [OF hps]
      by (simp add: find_named_step del: find_named.simps)
  qed
qed

lemma find_named_found:
  "find_named n ps = Some p \<Longrightarrow> p = JNull \<or> (named_as n p \<and> p \<in> set ps)"
  by (induction ps) (auto simp: named_as_def split: option.splits if_splits)

lemma scan_parts_step:
  assumes "well_formed_part part"
  shows "scan_parts (part # rest) =
           (if icd10_concept part then scan_parts [part] else scan_parts rest)"
proof -
  from assms obtain kvs where p: "part = JObj kvs"
    by (auto simp: well_formed_part_def is_object_iff)
  show ?thesis
  proof (cases "map_of kvs ''name'' = Some (JStr ''concept'')")
    case False
    then have "\<not> icd10_concept part"
      by (auto simp: icd10_concept_def p split: option.splits)
    moreover from False have "scan_parts (part # rest) = scan_parts rest"
      by (auto simp: p split: option.splits)
    ultimately show ?thesis by simp
  next
    case concept: True
    show ?thesis
    proof (cases "map_of kvs ''valueCoding''")
      case None
      then have "\<not> icd10_concept part"
        by (simp add: icd10_concept_def p)
      moreover from None concept have "scan_parts (part # rest) = scan_parts rest"
        by (simp add: p)
      ultimately show ?thesis by simp
    next
      case (Some vc)
      with assms p obtain vkvs where vc: "vc = JObj vkvs"
        by (auto simp: well_formed_part_def is_object_iff)
      show ?thesis
      proof (cases "map_of vkvs ''system'' = Some (JStr icd10_system)")
        case True
        then have "icd10_concept part"
          using concept Some vc by (simp add: icd10_concept_def p)
        moreover from True concept Some vc
        have "scan_parts (part # rest) = scan_parts [part]"
          by (simp add: p)
        ultimately show ?thesis by simp
      next
        case False
        then have "\<not> icd10_concept part"
          using concept Some vc by (auto simp: icd10_concept_def p split: option.splits)
        moreover from False concept Some vc
        have "scan_parts (part # rest) = scan_parts rest"
          by (auto simp: p split: option.splits)
        ultimately show ?thesis by simp
      qed
    qed
  qed
qed

lemma scan_parts_filter:
  "list_all well_formed_part parts \<Longrightarrow>
   scan_parts parts = scan_parts (filter icd10_concept parts)"
proof (induction parts)
  case Nil
  then show ?case by simp
next
  case (Cons part parts)
  then have w: "well_formed_part part" and ws: "list_all well_formed_part parts" by simp_all
  show ?case
  proof (cases "icd10_concept part")
    case True
    have "scan_parts (part # parts) = scan_parts [part]"
      using scan_parts_step [OF w, of parts] True by (simp del: scan_parts.simps)
    moreover have "scan_parts (part # filter icd10_concept parts) = scan_parts [part]"
      using scan_parts_step [OF w, of "filter icd10_concept parts"] True
      by (simp del: scan_parts.simps)
    ultimately show ?thesis using True by (simp del: scan_parts.simps)
  next
    case False
    have "scan_parts (part # parts) = scan_parts parts"
      using scan_parts_step [OF w, of parts] False by (simp del: scan_parts.simps)
    with False Cons.IH [OF ws] show ?thesis by (simp del: scan_parts.simps)
  qed
qed

lemma short_mset_eq:
  assumes "mset xs = mset ys" and "length ys \<le> 1"
  shows "xs = ys"
proof (cases ys)
  case Nil
  with assms(1) show ?thesis by simp
next
  case (Cons y ys')
  with assms(2) have "ys = [y]" by simp
  with assms(1) show ?thesis by simp
qed

lemma filter_permuted:
  assumes "mset qs = mset ps" and "length (filter P ps) \<le> 1"
  shows "filter P qs = filter P ps"
proof -
  from assms(1) have "mset (filter P qs) = mset (filter P ps)"
    by (metis mset_filter)
  from this assms(2) show ?thesis by (rule short_mset_eq)
qed

lemma list_all_permuted: "mset qs = mset ps \<Longrightarrow> list_all P qs = list_all P ps"
  by (metis list_all_iff mset_eq_setD)

lemma scan_parts_permuted:
  assumes "mset ys = mset xs" and "list_all well_formed_part xs"
    and "length (filter icd10_concept xs) \<le> 1"
  shows "scan_parts ys = scan_parts xs"
proof -
  from assms(2) have "list_all well_formed_part ys"
    using list_all_permuted [OF assms(1), of well_formed_part] by simp
  then have "scan_parts ys = scan_parts (filter icd10_concept ys)"
    by (rule scan_parts_filter)
  also have "filter icd10_concept ys = filter icd10_concept xs"
    using assms(1,3) by (rule filter_permuted)
  also have "scan_parts (filter icd10_concept xs) = scan_parts xs"
    using assms(2) by (rule scan_parts_filter [symmetric])
  finally show ?thesis .
qed

lemma find_named_permuted:
  assumes "mset qs = mset ps" and "list_all has_name ps"
    and "length (filter (named_as n) ps) \<le> 1"
  shows "find_named n qs = find_named n ps"
proof -
  from assms(2) have "list_all has_name qs"
    using list_all_permuted [OF assms(1), of has_name] by simp
  then have "find_named n qs = find_named n (filter (named_as n) qs)"
    by (rule find_named_filter)
  also have "filter (named_as n) qs = filter (named_as n) ps"
    using assms(1,3) by (rule filter_permuted)
  also have "find_named n (filter (named_as n) ps) = find_named n ps"
    using assms(2) by (rule find_named_filter [symmetric])
  finally show ?thesis .
qed

lemma extract_body_params:
  assumes "py_getitem response ''parameter'' = Some (JArr ps)"
  shows "extract_body response = extract_params ps"
proof -
  from assms obtain kvs where r: "response = JObj kvs" and k: "map_of kvs ''parameter'' = Some (JArr ps)"
    by (cases response) simp_all
  from k have "kvs \<noteq> []" by auto
  with r k show ?thesis
    unfolding extract_body_def extract_params_def match_tail_def [abs_def] by simp
qed

lemma map_of_without:
  "k \<noteq> a \<Longrightarrow> map_of (filter (\<lambda>kv. fst kv \<noteq> a) kvs) k = map_of kvs k"
  by (induction kvs) auto

lemma elements_Some: "elements v = Some xs \<longleftrightarrow> v = JArr xs"
  by (cases v) auto

lemma part_elements:
  "(py_getitem (JObj kvs) ''part'' \<bind> elements) = Some xs \<longleftrightarrow> map_of kvs ''part'' = Some (JArr xs)"
  by (cases "map_of kvs ''part''") (simp_all add: elements_Some)

lemma reordered_parts_iff:
  "reordered_parts p p' \<longleftrightarrow>
     p' = p
     \<or> (\<exists>kvs kvs' xs ys. p = JObj kvs \<and> p' = JObj kvs'
          \<and> filter (\<lambda>kv. fst kv \<noteq> ''part'') kvs' = filter (\<lambda>kv. fst kv \<noteq> ''part'') kvs
          \<and> map_of kvs ''part'' = Some (JArr xs) \<and> map_of kvs' ''part'' = Some (JArr ys)
          \<and> mset ys = mset xs)"
proof (cases "is_object p \<and> is_object p'")
  case False
  then show ?thesis by (auto simp: reordered_parts_def)
next
  case True
  then obtain kvs kvs' where p: "p = JObj kvs" "p' = JObj kvs'"
    by (auto simp: is_object_iff)
  show ?thesis
  proof (cases "py_getitem (JObj kvs) ''part'' \<bind> elements")
    case None
    then have "\<And>xs. map_of kvs ''part'' \<noteq> Some (JArr xs)"
      using part_elements [of kvs] by (metis option.distinct(1))
    with None p show ?thesis by (auto simp: reordered_parts_def simp del: py_getitem.simps)
  next
    case xs: (Some xs)
    then have kx: "map_of kvs ''part'' = Some (JArr xs)" by (simp only: part_elements)
    show ?thesis
    proof (cases "py_getitem (JObj kvs') ''part'' \<bind> elements")
      case None
      then have "\<And>ys. map_of kvs' ''part'' \<noteq> Some (JArr ys)"
        using part_elements [of kvs'] by (metis option.distinct(1))
      with None xs p show ?thesis by (auto simp: reordered_parts_def simp del: py_getitem.simps)
    next
      case ys: (Some ys)
      then have ky: "map_of kvs' ''part'' = Some (JArr ys)" by (simp only: part_elements)
      from xs ys kx ky p show ?thesis
        by (auto simp: reordered_parts_def simp del: py_getitem.simps)
    qed
  qed
qed

lemma reordered_lookup:
  assumes "filter (\<lambda>kv. fst kv \<noteq> ''part'') kvs' = filter (\<lambda>kv. fst kv \<noteq> ''part'') kvs"
    and "k \<noteq> ''part''"
  shows "map_of kvs' k = map_of kvs k"
proof -
  from assms(1) have "map_of (filter (\<lambda>kv. fst kv \<noteq> ''part'') kvs') k
           = map_of (filter (\<lambda>kv. fst kv \<noteq> ''part'') kvs) k"
    by simp
  with assms(2) show ?thesis by (simp add: map_of_without)
qed

lemma reordered_name:
  assumes "reordered_parts p p'"
  shows "py_getitem p' ''name'' = py_getitem p ''name''"
proof (cases "p' = p")
  case True
  then show ?thesis by simp
next
  case False
  with assms obtain kvs kvs' where p: "p = JObj kvs" "p' = JObj kvs'"
    and f: "filter (\<lambda>kv. fst kv \<noteq> ''part'') kvs' = filter (\<lambda>kv. fst kv \<noteq> ''part'') kvs"
    unfolding reordered_parts_iff by blast
  from f have "map_of kvs' ''name'' = map_of kvs ''name''"
    by (rule reordered_lookup) simp
  with p show ?thesis by simp
qed

lemma reordered_value_boolean:
  assumes "reordered_parts p p'"
  shows "py_get p' ''valueBoolean'' d = py_get p ''valueBoolean'' d"
proof (cases "p' = p")
  case True
  then show ?thesis by simp
next
  case False
  with assms obtain kvs kvs' where p: "p = JObj kvs" "p' = JObj kvs'"
    and f: "filter (\<lambda>kv. fst kv \<noteq> ''part'') kvs' = filter (\<lambda>kv. fst kv \<noteq> ''part'') kvs"
    unfolding reordered_parts_iff by blast
  from f have "map_of kvs' ''valueBoolean'' = map_of kvs ''valueBoolean''"
    by (rule reordered_lookup) simp
  with p show ?thesis by simp
qed

lemma reordered_truthy:
  assumes "reordered_parts p p'" and "has_name p"
  shows "truthy p' = truthy p"
proof -
  from assms(2) obtain kvs where p: "p = JObj kvs" and n: "map_of kvs ''name'' \<noteq> None"
    using has_name_object by blast
  from reordered_name [OF assms(1)] p n obtain kvs' where p': "p' = JObj kvs'"
    and n': "map_of kvs' ''name'' \<noteq> None"
    by (cases p') auto
  from n n' have "kvs \<noteq> []" "kvs' \<noteq> []" by auto
  with p p' show ?thesis by simp
qed

lemma find_named_reordered:
  "list_all2 reordered_parts qs ps' \<Longrightarrow>
   (find_named n qs = None \<and> find_named n ps' = None)
   \<or> (\<exists>p p'. find_named n qs = Some p \<and> find_named n ps' = Some p' \<and> reordered_parts p p')"
proof (induction rule: list_all2_induct)
  case Nil
  then show ?case by (simp add: reordered_parts_iff)
next
  case (Cons q qs p' ps')
  from reordered_name [OF Cons.hyps(1)]
  have nm: "py_getitem p' ''name'' = py_getitem q ''name''" .
  show ?case
  proof (cases "py_getitem q ''name''")
    case None
    with nm show ?thesis by simp
  next
    case (Some v)
    with nm Cons.hyps(1) Cons.IH show ?thesis by (cases "v = JStr n") simp_all
  qed
qed

lemma match_tail_object:
  "match_tail (JObj kvs) =
     (if kvs = [] then Some (JStr [])
      else case map_of kvs ''part'' of
             None \<Rightarrow> Some (JStr [])
           | Some parts \<Rightarrow> py_iter parts \<bind> scan_parts)"
proof (cases "kvs = []")
  case True
  then show ?thesis by (simp add: match_tail_def)
next
  case False
  then show ?thesis
    by (cases "map_of kvs ''part''") (simp_all add: match_tail_def)
qed

lemma match_tail_reordered:
  assumes "reordered_parts m m'"
    and "m = JNull \<or> (named_as ''match'' m \<and> parts_unambiguous m)"
  shows "match_tail m' = match_tail m"
proof (cases "m' = m")
  case True
  then show ?thesis by simp
next
  case False
  with assms(1) obtain kvs kvs' xs ys where m: "m = JObj kvs" and m': "m' = JObj kvs'"
    and x: "map_of kvs ''part'' = Some (JArr xs)" and y: "map_of kvs' ''part'' = Some (JArr ys)"
    and p: "mset ys = mset xs"
    unfolding reordered_parts_iff by blast
  from assms(2) m have nm: "named_as ''match'' m" and un: "parts_unambiguous m" by simp_all
  from x y have ne: "kvs \<noteq> []" "kvs' \<noteq> []" by auto
  from un nm m x have "list_all well_formed_part xs" "length (filter icd10_concept xs) \<le> 1"
    by (simp_all add: parts_unambiguous_def)
  with p have "scan_parts ys = scan_parts xs" by (rule scan_parts_permuted)
  with m m' ne x y show ?thesis by (simp add: match_tail_object)
qed

lemma extract_params_result:
  "find_named ''result'' ps = None \<Longrightarrow> extract_params ps = None"
  "find_named ''result'' ps = Some r \<Longrightarrow>
   extract_params ps =
     (if \<not> truthy r then Some (JStr [])
      else case py_get r ''valueBoolean'' (JBool False) of
             None \<Rightarrow> None
           | Some v \<Rightarrow> if \<not> truthy v then Some (JStr [])
                       else (case find_named ''match'' ps of
                               None \<Rightarrow> None
                             | Some m \<Rightarrow> match_tail m))"
  unfolding extract_params_def
  by (simp_all split: option.splits Option.bind_splits)

lemma extract_params_reordered:
  assumes "list_all2 reordered_parts qs ps'" and "list_all has_name qs"
    and "list_all parts_unambiguous qs"
  shows "extract_params ps' = extract_params qs"
proof -
  from find_named_reordered [OF assms(1), of "''result''"]
  consider "find_named ''result'' qs = None" "find_named ''result'' ps' = None"
    | r r' where "find_named ''result'' qs = Some r" "find_named ''result'' ps' = Some r'"
        "reordered_parts r r'"
    by auto
  then show ?thesis
  proof cases
    case 1
    then show ?thesis by (simp add: extract_params_result(1))
  next
    case 2
    have res: "truthy r' = truthy r"
      "py_get r' ''valueBoolean'' (JBool False) = py_get r ''valueBoolean'' (JBool False)"
    proof -
      show "py_get r' ''valueBoolean'' (JBool False) = py_get r ''valueBoolean'' (JBool False)"
        using 2(3) by (rule reordered_value_boolean)
      show "truthy r' = truthy r"
      proof (cases "r' = r")
        case True
        then show ?thesis by simp
      next
        case False
        with 2(3) have "is_object r" by (auto simp: reordered_parts_iff)
        with find_named_found [OF 2(1)] have "r \<in> set qs" by auto
        with assms(2) have "has_name r" by (simp add: list_all_iff)
        with 2(3) show ?thesis by (rule reordered_truthy)
      qed
    qed
    from find_named_reordered [OF assms(1), of "''match''"]
    consider "find_named ''match'' qs = None" "find_named ''match'' ps' = None"
      | m m' where "find_named ''match'' qs = Some m" "find_named ''match'' ps' = Some m'"
          "reordered_parts m m'"
      by auto
    then have "(case find_named ''match'' ps' of None \<Rightarrow> None | Some m \<Rightarrow> match_tail m)
             = (case find_named ''match'' qs of None \<Rightarrow> None | Some m \<Rightarrow> match_tail m)"
    proof cases
      case 1
      then show ?thesis by simp
    next
      case 2
      from find_named_found [OF 2(1)] assms(3)
      have "m = JNull \<or> (named_as ''match'' m \<and> parts_unambiguous m)"
        by (auto simp: list_all_iff)
      with 2(3) have "match_tail m' = match_tail m" by (rule match_tail_reordered)
      with 2(1,2) show ?thesis by simp
    qed
    then show ?thesis
      by (simp only: extract_params_result(2) [OF 2(1)] extract_params_result(2) [OF 2(2)] res)
  qed
qed

lemmas response_defs = response_of_def match_of_def result_true_def concept_part_def
  j459_def j450_def sct1_def

lemma extract_first:
  "extract_icd10_from_response (response_of [result_true, match_of [j459, j450]]) = JStr ''J45.9''"
  "extract_icd10_from_response (response_of [result_true, match_of [j450, j459]]) = JStr ''J45.0''"
  "extract_icd10_from_response (response_of [result_true, match_of [j459], match_of [j450]]) = JStr ''J45.9''"
  "extract_icd10_from_response (response_of [result_true, match_of [j450], match_of [j459]]) = JStr ''J45.0''"
  by (simp_all add: response_defs extract_icd10_from_response_def extract_body_def icd10_system_def)

lemma named_cells:
  "has_name result_true" "has_name (match_of parts)"
  "named_as ''result'' result_true" "\<not> named_as ''match'' result_true"
  "named_as ''match'' (match_of parts)" "\<not> named_as ''result'' (match_of parts)"
  by (simp_all add: has_name_def named_as_def result_true_def match_of_def)

lemma part_cells:
  "well_formed_part j459" "well_formed_part sct1" "icd10_concept j459" "\<not> icd10_concept sct1"
  by (simp_all add: well_formed_part_def icd10_concept_def j459_def sct1_def concept_part_def
      icd10_system_def)

lemma unambiguous_cells:
  "parts_unambiguous result_true" "parts_unambiguous (match_of [j459, sct1])"
  by (simp_all add: parts_unambiguous_def named_as_def result_true_def match_of_def part_cells)

lemma reordered_cells:
  "reordered_parts result_true result_true"
  "reordered_parts (match_of [j459, sct1]) (match_of [sct1, j459])"
  by (simp_all add: reordered_parts_def match_of_def)

section \<open>A second run in resume mode\<close>










lemma token_known_same:
  "access_token st' = access_token st \<Longrightarrow> token_known env st' = token_known env st"
  by (simp add: token_known_def)















section \<open>A raised error in the failure ledger\<close>




section \<open>A failed credential exchange\<close>

text \<open>
  Claim C2, as amended. When every credential exchange fails (and the credentials had
  loaded), the run is not fatal: it completes. No translate request is sent (the only
  requests are token requests, one for each code that is not skipped), no row is added
  to the success ledger, and every code that is not skipped is counted as an error and
  gets a row in the failure ledger.
\<close>

theorem auth_failure_not_fatal:
  assumes "\<forall>t. token_refused (token_endpoint env t)" and "load_credentials env = None"
  shows "fst (process_batch_codes env (Inr lines) fr w) = Completed
     \<and> processed_codes (snd (process_batch_codes env (Inr lines) fr w)) = 0
     \<and> total_codes (snd (process_batch_codes env (Inr lines) fr w)) =
         skipped_codes (snd (process_batch_codes env (Inr lines) fr w))
         + error_codes (snd (process_batch_codes env (Inr lines) fr w))
     \<and> output_file (run env (Inr lines) fr w) = open_ledger fr output_header (output_file w)
     \<and> requests (run env (Inr lines) fr w) =
         requests w @ replicate (error_codes (snd (process_batch_codes env (Inr lines) fr w)))
                        Token_request
     \<and> (\<exists>opened rows. open_ledger fr failed_header (failed_file w) = Some opened
           \<and> failed_file (run env (Inr lines) fr w) = Some (opened @ rows)
           \<and> length rows = error_codes (snd (process_batch_codes env (Inr lines) fr w)))"
proof -
  obtain opened where o: "open_ledger fr failed_header (failed_file w) = Some opened"
    using open_ledger_some by blast
  let ?ex = "if fr then Map.empty else load_existing_mappings (output_file w)"
  let ?st1 = "\<lparr>total_codes = 0, skipped_codes = 0, processed_codes = 0, error_codes = 0,
      current_id = (if fr then 1 else get_last_id (output_file w) + 1),
      failed_id = (if fr then 1 else get_last_id (failed_file w) + 1),
      access_token = JNull,
      wld = w\<lparr>output_file := open_ledger fr output_header (output_file w),
               failed_file := open_ledger fr failed_header (failed_file w)\<rparr>\<rparr>"
  have pbc: "process_batch_codes env (Inr lines) fr w =
      (Completed, fold (process_line env fr ?ex) lines ?st1)"
    using assms(2) by (simp add: process_batch_codes_def)
  have "refused_so_far (open_ledger fr output_header (output_file w)) opened (requests w) ?st1"
    using o by (simp add: refused_so_far_def)
  from refused_fold [OF assms(1) this, of fr ?ex lines]
  show ?thesis using o
    unfolding run_def pbc by (auto simp: refused_so_far_def)
qed

theorem auth_failure_not_fatal_witness:
  "(\<forall>t. token_refused (token_endpoint no_token_env t))
   \<and> load_credentials no_token_env = None
   \<and> fst (process_batch_codes no_token_env (Inr [''1'']) False fresh_world) = Completed
   \<and> error_codes (snd (process_batch_codes no_token_env (Inr [''1'']) False fresh_world)) = 1
   \<and> requests (run no_token_env (Inr [''1'']) False fresh_world) = [Token_request]
   \<and> output_file (run no_token_env (Inr [''1'']) False fresh_world) = Some [output_header]"
proof -
  have h: "\<forall>t. token_refused (token_endpoint no_token_env t)" "load_credentials no_token_env = None"
    by (simp_all add: no_token_refused no_token_env_sel)
  from auth_failure_not_fatal [OF h, of "[''1'']" False fresh_world] h show ?thesis
    by (simp add: batch_1_refused run_def refused_once_world_def)
qed

text \<open>
  Claim C2 as stated fails: with a token endpoint that answers 401, the run over the
  single code 1 completes and writes a failure row for the code.
\<close>

theorem auth_failure_writes_failure_rows:
  "token_refused (token_endpoint no_token_env 0)
   \<and> fst (process_batch_codes no_token_env (Inr [''1'']) False fresh_world) = Completed
   \<and> failed_file (run no_token_env (Inr [''1'']) False fresh_world)
     = Some [failed_header, [''1'', ''1'', ''No mapping found'', ''2024-01-01 00:00:00'']]"
  by (simp add: no_token_refused run_def batch_1_refused refused_once_world_def)

section \<open>Two runs in resume mode against one full refresh\<close>




section \<open>The next identifier\<close>




section \<open>Identifiers stay gapless across runs\<close>



section \<open>A code of the index is skipped\<close>

text \<open>
  Claim C6. In a run in resume mode, a line whose code \<open>c\<close> (the line without its
  surrounding white space, not empty) is a key of the index loaded from the success
  ledger changes two counters only: the total and the skipped count grow by one. The
  rest of the state is as before: no request is sent, no row is written to either
  ledger, no artifact is written.
\<close>

theorem skip_existing_code:
  assumes "load_existing_mappings file (Some c) \<noteq> None" and "strip line = c" and "c \<noteq> []"
  shows "process_line env False (load_existing_mappings file) line st =
           st\<lparr>total_codes := Suc (total_codes st), skipped_codes := Suc (skipped_codes st)\<rparr>"
  using assms by (auto simp: process_line_def Let_def)

theorem skip_existing_code_witness:
  "load_existing_mappings (output_file old_world) (Some ''111'') \<noteq> None
   \<and> strip '' 111 '' = ''111'' \<and> ''111'' \<noteq> []
   \<and> process_line demo_env False (load_existing_mappings (output_file old_world))
        '' 111 '' resumed_state =
      resumed_state\<lparr>total_codes := 1, skipped_codes := 1\<rparr>
   \<and> requests (wld (resumed_state\<lparr>total_codes := 1, skipped_codes := 1\<rparr>)) = []"
proof -
  have h: "load_existing_mappings (output_file old_world) (Some ''111'') \<noteq> None"
    "strip '' 111 '' = ''111''" "''111'' \<noteq> []"
    by (simp_all add: existing_old strip_111)
  from skip_existing_code [OF h, of demo_env resumed_state] h show ?thesis
    by (simp add: resumed_state_def old_world_def)
qed

section \<open>The extractor on its unit cases\<close>

text \<open>
  Claim C7. On the response with \<^verbatim>\<open>result\<close> true and a \<^verbatim>\<open>match\<close> whose concept is coded in
  the ICD-10-AM system with code J45.9 the extractor returns that code. On the response
  with \<^verbatim>\<open>result\<close> false and on the empty response it returns the empty string, which is
  the program's value for no code (the engine's test \<^verbatim>\<open>if icd10_code\<close> fails on it); on
  the empty response the body of the \<^verbatim>\<open>try\<close> block itself returns, so no exception is
  raised even inside the function.
\<close>

theorem extractor_unit_cases:
  "extract_icd10_from_response match_response = JStr ''J45.9''
   \<and> extract_icd10_from_response no_match_response = JStr []
   \<and> extract_icd10_from_response empty_response = JStr []
   \<and> extract_body no_match_response = Some (JStr [])
   \<and> extract_body empty_response = Some (JStr [])
   \<and> \<not> truthy (JStr [])"
  by (simp add: match_response_def no_match_response_def empty_response_def
      extract_icd10_from_response_def extract_body_def icd10_system_def)

section \<open>The order of a response\<close>

text \<open>
  Claim C8, as amended. The extractor reads the first parameter named \<^verbatim>\<open>result\<close>, the
  first named \<^verbatim>\<open>match\<close>, and in it the first sub-part that is an ICD-10-AM concept. So
  the order carries no meaning when it leaves no choice: take a response whose parameter
  entries all have a name, with at most one named \<^verbatim>\<open>result\<close> and at most one named
  \<^verbatim>\<open>match\<close>, the sub-parts of the match being well formed with at most one ICD-10-AM
  concept among them. Then permuting the parameter collection (\<open>qs\<close> is a permutation of
  \<open>ps\<close>) and permuting the sub-parts inside the match parameter (\<open>ps'\<close> is \<open>qs\<close> with
  the part lists permuted) leaves the extracted result unchanged.
\<close>

theorem extraction_order_free_when_unambiguous:
  assumes "py_getitem response ''parameter'' = Some (JArr ps)"
    and "py_getitem response' ''parameter'' = Some (JArr ps')"
    and "mset qs = mset ps" and "list_all2 reordered_parts qs ps'"
    and "list_all has_name ps"
    and "length (filter (named_as ''result'') ps) \<le> 1"
    and "length (filter (named_as ''match'') ps) \<le> 1"
    and "list_all parts_unambiguous ps"
  shows "extract_icd10_from_response response' = extract_icd10_from_response response"
proof -
  have q: "list_all has_name qs" "list_all parts_unambiguous qs"
    using assms(5,8) list_all_permuted [OF assms(3), of has_name]
      list_all_permuted [OF assms(3), of parts_unambiguous]
    by simp_all
  have "extract_params qs = extract_params ps"
    unfolding extract_params_def
      find_named_permuted [OF assms(3,5,6)] find_named_permuted [OF assms(3,5,7)] ..
  moreover have "extract_params ps' = extract_params qs"
    using assms(4) q by (rule extract_params_reordered)
  ultimately show ?thesis
    using assms(1,2) by (simp add: extract_icd10_from_response_def extract_body_params)
qed

theorem extraction_order_free_when_unambiguous_witness:
  "mset [match_of [j459, sct1], result_true] = mset [result_true, match_of [j459, sct1]]
   \<and> list_all2 reordered_parts [match_of [j459, sct1], result_true]
                                [match_of [sct1, j459], result_true]
   \<and> list_all has_name [result_true, match_of [j459, sct1]]
   \<and> length (filter (named_as ''result'') [result_true, match_of [j459, sct1]]) \<le> 1
   \<and> length (filter (named_as ''match'') [result_true, match_of [j459, sct1]]) \<le> 1
   \<and> list_all parts_unambiguous [result_true, match_of [j459, sct1]]
   \<and> extract_icd10_from_response (response_of [match_of [sct1, j459], result_true])
     = extract_icd10_from_response (response_of [result_true, match_of [j459, sct1]])"
proof -
  have h: "py_getitem (response_of [result_true, match_of [j459, sct1]]) ''parameter''
             = Some (JArr [result_true, match_of [j459, sct1]])"
    "py_getitem (response_of [match_of [sct1, j459], result_true]) ''parameter''
             = Some (JArr [match_of [sct1, j459], result_true])"
    "mset [match_of [j459, sct1], result_true] = mset [result_true, match_of [j459, sct1]]"
    "list_all2 reordered_parts [match_of [j459, sct1], result_true]
                                [match_of [sct1, j459], result_true]"
    "list_all has_name [result_true, match_of [j459, sct1]]"
    "length (filter (named_as ''result'') [result_true, match_of [j459, sct1]]) \<le> 1"
    "length (filter (named_as ''match'') [result_true, match_of [j459, sct1]]) \<le> 1"
    "list_all parts_unambiguous [result_true, match_of [j459, sct1]]"
    by (simp_all add: response_of_def named_cells unambiguous_cells reordered_cells)
  from extraction_order_free_when_unambiguous [OF h] h show ?thesis by simp
qed

text \<open>
  Claim C8 as stated fails: with two ICD-10-AM concepts in a match, and with two match
  parameters, the extractor returns the code that comes first, so a permutation changes
  the result.
\<close>

theorem extraction_depends_on_order:
  "mset [j450, j459] = mset [j459, j450]
   \<and> extract_icd10_from_response (response_of [result_true, match_of [j459, j450]])
       = JStr ''J45.9''
   \<and> extract_icd10_from_response (response_of [result_true, match_of [j450, j459]])
       = JStr ''J45.0''
   \<and> mset [result_true, match_of [j450], match_of [j459]]
       = mset [result_true, match_of [j459], match_of [j450]]
   \<and> extract_icd10_from_response (response_of [result_true, match_of [j459], match_of [j450]])
       = JStr ''J45.9''
   \<and> extract_icd10_from_response (response_of [result_true, match_of [j450], match_of [j459]])
       = JStr ''J45.0''"
  by (simp add: extract_first)

section \<open>Every success row carries a code\<close>



section \<open>A full refresh empties the ledgers before it reads the input\<close>

text \<open>
  Claim C10. In full-refresh mode both ledgers are emptied and given their header row
  before the input file is opened. So when the input file cannot be opened (and the
  credentials had loaded, so that the run got that far), the run aborts with the
  exception of the failed open, no code is counted, no identifier is used, and both
  ledgers hold their header row only, whatever they held before.
\<close>

theorem full_refresh_wipes_before_input:
  assumes "load_credentials env = None"
  shows "process_batch_codes env (Inl e) True w =
     (Aborted e,
      \<lparr>total_codes = 0, skipped_codes = 0, processed_codes = 0, error_codes = 0,
       current_id = 1, failed_id = 1, access_token = JNull,
       wld = w\<lparr>output_file := Some [output_header], failed_file := Some [failed_header]\<rparr>\<rparr>)"
  using assms by (simp add: process_batch_codes_def open_ledger_def append_row_def)

theorem full_refresh_wipes_before_input_witness:
  "load_credentials demo_env = None
   \<and> output_file old_world \<noteq> Some [output_header]
   \<and> failed_file old_world \<noteq> Some [failed_header]
   \<and> process_batch_codes demo_env (Inl (OtherException ''No such file'')) True old_world =
     (Aborted (OtherException ''No such file''),
      \<lparr>total_codes = 0, skipped_codes = 0, processed_codes = 0, error_codes = 0,
       current_id = 1, failed_id = 1, access_token = JNull,
       wld = \<lparr>output_file = Some [output_header], failed_file = Some [failed_header],
              artifacts = [], requests = [], tick = 0\<rparr>\<rparr>)"
  using full_refresh_wipes_before_input [of demo_env "OtherException ''No such file''" old_world]
  by (simp add: demo_env_def old_world_def)

end
